theory Spec2Isabelle
  imports Main
begin

section \<open>JavaScript strings and truthiness\<close>

text \<open>
  Strings are modelled as \<open>string\<close> (lists of 8-bit characters), so the development speaks
  about theme documents and file names written in ASCII. The string built-ins the source
  calls are written out below with the behaviour ECMAScript gives them on such strings.
\<close>

definition upper_letters :: string where
  "upper_letters = ''ABCDEFGHIJKLMNOPQRSTUVWXYZ''"

definition lower_letters :: string where
  "lower_letters = ''abcdefghijklmnopqrstuvwxyz''"

definition digits :: string where
  "digits = ''0123456789''"

text \<open>\<open>String.prototype.toLowerCase\<close>.\<close>

definition toLowerCase :: "string \<Rightarrow> string" where
  "toLowerCase s =
     map (\<lambda>c. case map_of (zip upper_letters lower_letters) c of Some l \<Rightarrow> l | None \<Rightarrow> c) s"

text \<open>\<open>String.prototype.indexOf\<close> for a one-character needle: \<open>-1\<close> when it does not occur.\<close>

fun indexOf :: "string \<Rightarrow> char \<Rightarrow> int" where
  "indexOf [] c = - 1"
| "indexOf (x # xs) c =
     (if x = c then 0 else (let r = indexOf xs c in if r = - 1 then - 1 else r + 1))"

text \<open>\<open>String.prototype.substr\<close> with one argument, called with a non-negative start only.\<close>

definition substr :: "string \<Rightarrow> int \<Rightarrow> string" where
  "substr s start = drop (nat start) s"

text \<open>
  \<open>String.prototype.split\<close> with a one-character separator. The result is never empty:
  the empty string splits into one empty segment.
\<close>

fun split :: "string \<Rightarrow> char \<Rightarrow> string list" where
  "split [] c = [[]]"
| "split (x # xs) c =
     (if x = c then [] # split xs c
      else (case split xs c of [] \<Rightarrow> [[x]] | s # ss \<Rightarrow> (x # s) # ss))"

text \<open>\<open>Array.prototype.join\<close> and \<open>Array.prototype.slice\<close> with a start index.\<close>

fun join :: "string list \<Rightarrow> string \<Rightarrow> string" where
  "join [] sep = []"
| "join [s] sep = s"
| "join (s # t # ss) sep = s @ sep @ join (t # ss) sep"

definition slice :: "'a list \<Rightarrow> nat \<Rightarrow> 'a list" where
  "slice xs i = drop i xs"

text \<open>
  A value of type \<open>string | undefined\<close> used as a condition: \<open>undefined\<close> and the empty
  string are falsy. \<open>truthy\<close> keeps the value exactly when the condition holds, and
  \<open>or_else a b\<close> is \<open>a || b\<close>.
\<close>

definition truthy :: "string option \<Rightarrow> string option" where
  "truthy v = (case v of None \<Rightarrow> None | Some s \<Rightarrow> if s = [] then None else Some s)"

definition or_else :: "string option \<Rightarrow> string option \<Rightarrow> string option" where
  "or_else a b = (case truthy a of Some s \<Rightarrow> Some s | None \<Rightarrow> b)"

section \<open>plugin-icon-theme-service.ts: class names\<close>

text \<open>
  \<open>escapeCSS\<close> tries the browser's \<open>CSS.escape\<close> and falls back to a replacement of its own
  when the call throws. The browser function is a parameter \<open>css\<close> of the model:
  \<open>css v = None\<close> stands for a call that throws (the function is missing in some browsers).
\<close>

type_synonym css_escape = "string \<Rightarrow> string option"

definition escapeCSS :: "css_escape \<Rightarrow> string \<Rightarrow> string" where
  "escapeCSS css v =
     (case css v of
        Some r \<Rightarrow> r
      | None \<Rightarrow>
          (let v1 = map (\<lambda>c. if c \<in> set (''-'' @ lower_letters @ upper_letters @ digits)
                               then c else CHR ''-'') v
           in (case v1 of
                 [] \<Rightarrow> v1
               | c # _ \<Rightarrow> if c \<in> set (digits @ ''-'') then ''-'' @ v1 else v1)))"

definition fileIcon :: string where
  "fileIcon = ''theia-plugin-file-icon''"

definition folderIcon :: string where
  "folderIcon = ''theia-plugin-folder-icon''"

definition folderExpandedIcon :: string where
  "folderExpandedIcon = ''theia-plugin-folder-expanded-icon''"

definition rootFolderIcon :: string where
  "rootFolderIcon = ''theia-plugin-root-folder-icon''"

definition rootFolderExpandedIcon :: string where
  "rootFolderExpandedIcon = ''theia-plugin-root-folder-expanded-icon''"

definition folderNameIcon :: "css_escape \<Rightarrow> string \<Rightarrow> string" where
  "folderNameIcon css folderName =
     ''theia-plugin-'' @ escapeCSS css (toLowerCase folderName) @ ''-folder-name-icon''"

definition expandedFolderNameIcon :: "css_escape \<Rightarrow> string \<Rightarrow> string" where
  "expandedFolderNameIcon css folderName =
     ''theia-plugin-'' @ escapeCSS css (toLowerCase folderName) @ ''-expanded-folder-name-icon''"

text \<open>The \<open>for\<close> loop of \<open>fileExtensionIcon\<close>: \<open>i\<close> runs up to \<open>segments.length\<close>.\<close>

function fileExtensionIcon_loop ::
  "css_escape \<Rightarrow> string list \<Rightarrow> nat \<Rightarrow> string list \<Rightarrow> string list" where
  "fileExtensionIcon_loop css segments i icons =
     (if i < length segments
      then fileExtensionIcon_loop css segments (Suc i)
             (icons @ [''theia-plugin-'' @ escapeCSS css (join (slice segments i) ''.'')
                        @ ''-ext-file-icon''])
      else icons)"
  by pat_completeness auto
termination
  by (relation "measure (\<lambda>(css, segments, i, icons). length segments - i)") auto

declare fileExtensionIcon_loop.simps [simp del]

definition fileExtensionIcon :: "css_escape \<Rightarrow> string \<Rightarrow> string list" where
  "fileExtensionIcon css fileExtension =
     (let icons = [];
          segments = split fileExtension CHR ''.''
      in if length segments \<noteq> 0
         then (if length segments \<noteq> 0
               then fileExtensionIcon_loop css segments 0 icons @ [''theia-plugin-ext-file-icon'']
               else icons)
         else icons)"

definition fileNameIcon :: "css_escape \<Rightarrow> string \<Rightarrow> string list" where
  "fileNameIcon css fileName0 =
     (let fileName = toLowerCase fileName0;
          extIndex = indexOf fileName CHR ''.'';
          icons = (if extIndex \<noteq> - 1
                   then fileExtensionIcon css (substr fileName (extIndex + 1)) else [])
      in (''theia-plugin-'' @ escapeCSS css fileName @ ''-file-name-icon'') # icons)"

definition languageIcon :: "css_escape \<Rightarrow> string \<Rightarrow> string" where
  "languageIcon css languageId = ''theia-plugin-'' @ escapeCSS css languageId @ ''-lang-file-icon''"

section \<open>JavaScript objects read by key\<close>

text \<open>
  \<open>load\<close> reads \<open>iconDefinitions[definitionId]\<close> for ids the document chooses, and a
  property read follows the prototype chain. So \<open>iconDefinitions\<close> is modelled as the
  object the JSON parser builds: its own entries, and its prototype. The parser fills an
  object by assignment, so a key \<open>__proto__\<close> of the document with an object as value does
  not become an entry: that object becomes the prototype, and the prototype is \<open>null\<close> when
  the value is \<open>null\<close>. Without such a key the prototype is \<open>Object.prototype\<close>.

  A value is \<open>null\<close> (which also stands for the other falsy values that are not strings),
  a string, a built-in function, the object \<open>Object.prototype\<close>, or a parsed object.
\<close>

datatype js_value =
    JS_null
  | JS_string string
  | JS_function
  | Object_prototype
  | JS_object "(string \<times> js_value) list" js_value

text \<open>
  The properties of \<open>Object.prototype\<close> besides the accessor \<open>__proto__\<close>; each is a
  function.
\<close>

definition Object_prototype_functions :: "string list" where
  "Object_prototype_functions =
     [''constructor'', ''hasOwnProperty'', ''isPrototypeOf'', ''propertyIsEnumerable'',
      ''toLocaleString'', ''toString'', ''valueOf'', ''__defineGetter__'', ''__defineSetter__'',
      ''__lookupGetter__'', ''__lookupSetter__'']"

text \<open>
  \<open>object[key]\<close>, with \<open>None\<close> for \<open>undefined\<close>. On a parsed object the read looks among
  the own entries and then along the prototype chain, which ends at \<open>Object.prototype\<close> or
  at \<open>null\<close>; the key \<open>__proto__\<close> reads the prototype itself. On a string and on a
  function the read is used for the five properties of an icon definition only, none of
  which they have.
\<close>

fun get_property :: "js_value \<Rightarrow> string \<Rightarrow> js_value option" where
  "get_property (JS_object entries proto) key =
     (if key = ''__proto__'' then Some proto
      else (case map_of entries key of
              Some v \<Rightarrow> Some v
            | None \<Rightarrow> get_property proto key))"
| "get_property Object_prototype key =
     (if key = ''__proto__'' then Some JS_null
      else if key \<in> set Object_prototype_functions then Some JS_function
      else None)"
| "get_property JS_null key = None"
| "get_property (JS_string s) key = None"
| "get_property JS_function key = None"

text \<open>A value used as a condition.\<close>

fun is_truthy :: "js_value \<Rightarrow> bool" where
  "is_truthy JS_null = False"
| "is_truthy (JS_string s) = (s \<noteq> [])"
| "is_truthy JS_function = True"
| "is_truthy Object_prototype = True"
| "is_truthy (JS_object entries proto) = True"

text \<open>
  A property that the document's type declares to be a string: the string it holds, or
  \<open>undefined\<close>.
\<close>

definition string_property :: "js_value \<Rightarrow> string \<Rightarrow> string option" where
  "string_property v key = (case get_property v key of Some (JS_string s) \<Rightarrow> Some s | _ \<Rightarrow> None)"


section \<open>plugin-icon-theme-service.ts: the theme document\<close>

text \<open>
  The document is what the JSON parser hands to \<open>load\<close>, typed
  \<open>RecursivePartial<PluginIconThemeDocument>\<close>: every property may be missing. A record
  holds what reading each property gives. An object that the code walks with
  \<open>for ... in\<close> is the list of the entries the loop visits, in that order.
  \<open>iconDefinitions\<close>, which the code reads by key, is a \<open>js_value\<close>. The property \<open>file\<close>
  is the field \<open>file_id\<close> (\<open>file\<close> is reserved in Isabelle).
\<close>

record PluginIconDefinition =
  iconPath :: "string option"
  fontColor :: "string option"
  fontCharacter :: "string option"
  fontSize :: "string option"
  fontId :: "string option"

text \<open>
  What the code reads of the value \<open>iconDefinitions[definitionId]\<close> once it has found it
  truthy: the five properties of an icon definition.
\<close>

definition as_definition :: "js_value \<Rightarrow> PluginIconDefinition" where
  "as_definition v =
     \<lparr>iconPath = string_property v ''iconPath'',
      fontColor = string_property v ''fontColor'',
      fontCharacter = string_property v ''fontCharacter'',
      fontSize = string_property v ''fontSize'',
      fontId = string_property v ''fontId''\<rparr>"

text \<open>
  \<open>iconDefinitions[definitionId]\<close> as the code uses it: \<open>None\<close> when the value is falsy,
  the definition read from it otherwise.
\<close>

definition iconDefinition_at :: "js_value \<Rightarrow> string \<Rightarrow> PluginIconDefinition option" where
  "iconDefinition_at iconDefs definitionId =
     (case get_property iconDefs definitionId of
        None \<Rightarrow> None
      | Some v \<Rightarrow> if is_truthy v then Some (as_definition v) else None)"

record PluginFontSource =
  src_path :: "string option"
  src_format :: "string option"

record PluginFontDefinition =
  font_id :: "string option"
  font_weight :: "string option"
  font_style :: "string option"
  font_size :: "string option"
  font_src :: "PluginFontSource list option"

record PluginIconsAssociation =
  folder :: "string option"
  file_id :: "string option"
  folderExpanded :: "string option"
  rootFolder :: "string option"
  rootFolderExpanded :: "string option"
  folderNames :: "(string \<times> string) list option"
  folderNamesExpanded :: "(string \<times> string) list option"
  fileExtensions :: "(string \<times> string) list option"
  fileNames :: "(string \<times> string) list option"
  languageIds :: "(string \<times> string) list option"

record PluginIconThemeDocument = PluginIconsAssociation +
  iconDefinitions :: "js_value option"
  fonts :: "PluginFontDefinition list option"
  light :: "PluginIconsAssociation option"
  highContrast :: "PluginIconsAssociation option"
  hidesExplorerArrows :: "bool option"

text \<open>\<open>names.reduce((r, v) => r + '.' + v, '')\<close>.\<close>

definition dotted :: "string list \<Rightarrow> string" where
  "dotted names = foldl (\<lambda>r v. r @ ''.'' @ v) [] names"

text \<open>
  \<open>collectSelectors\<close> reports every selector through the callback \<open>accept\<close>. The callback
  updates a table the caller owns, so it is a state transformer here and the calls are
  threaded in the order the source makes them.
\<close>

definition accept_opt :: "(string \<Rightarrow> string \<Rightarrow> 's \<Rightarrow> 's) \<Rightarrow> string option \<Rightarrow> string \<Rightarrow> 's \<Rightarrow> 's" where
  "accept_opt accept v selector s =
     (case truthy v of Some definitionId \<Rightarrow> accept definitionId selector s | None \<Rightarrow> s)"

text \<open>
  \<open>for (const name in names) { accept(names[name], selectorOf(name)); }\<close>, the shape of
  the five loops over dictionaries; a loop over \<open>undefined\<close> has no pass, with or without
  a guard around it.
\<close>

definition accept_entries ::
  "(string \<Rightarrow> string \<Rightarrow> 's \<Rightarrow> 's) \<Rightarrow> (string \<Rightarrow> string) \<Rightarrow> (string \<times> string) list option
     \<Rightarrow> 's \<Rightarrow> 's" where
  "accept_entries accept selectorOf names s =
     (case names of
        None \<Rightarrow> s
      | Some entries \<Rightarrow> fold (\<lambda>(name, d). accept d (selectorOf name)) entries s)"

definition collectSelectors ::
  "css_escape \<Rightarrow> 'a PluginIconsAssociation_scheme \<Rightarrow> (string \<Rightarrow> string \<Rightarrow> 's \<Rightarrow> 's) \<Rightarrow> 's \<Rightarrow> 's" where
  "collectSelectors css associations accept s0 =
     (let s1 = accept_opt accept (folder associations) (''.'' @ folderIcon) s0;
          s2 = accept_opt accept (folderExpanded associations) (''.'' @ folderExpandedIcon) s1;
          rootFolder' = or_else (rootFolder associations) (folder associations);
          s3 = accept_opt accept rootFolder' (''.'' @ rootFolderIcon) s2;
          rootFolderExpanded' =
            or_else (rootFolderExpanded associations) (folderExpanded associations);
          s4 = accept_opt accept rootFolderExpanded' (''.'' @ rootFolderExpandedIcon) s3;
          s5 = accept_opt accept (file_id associations) (''.'' @ fileIcon) s4;
          s6 = accept_entries accept
                 (\<lambda>folderName. ''.'' @ folderNameIcon css folderName @ ''.'' @ folderIcon)
                 (folderNames associations) s5;
          s7 = accept_entries accept
                 (\<lambda>folderName. ''.'' @ expandedFolderNameIcon css folderName
                                 @ ''.'' @ folderExpandedIcon)
                 (folderNamesExpanded associations) s6;
          s8 = accept_entries accept
                 (\<lambda>fileName. dotted (fileNameIcon css fileName) @ ''.'' @ fileIcon)
                 (fileNames associations) s7;
          s9 = accept_entries accept
                 (\<lambda>fileExtension. dotted (fileExtensionIcon css fileExtension) @ ''.'' @ fileIcon)
                 (fileExtensions associations) s8
      in (case fileExtensions associations of
            None \<Rightarrow> s9
          | Some _ \<Rightarrow>
              accept_entries accept
                (\<lambda>languageId. ''.'' @ languageIcon css languageId @ ''.'' @ fileIcon)
                (languageIds associations) s9))"

text \<open>The callback that only writes down the calls it receives, in order.\<close>

definition record_call :: "string \<Rightarrow> string \<Rightarrow> (string \<times> string) list \<Rightarrow> (string \<times> string) list" where
  "record_call definitionId selector calls = calls @ [(definitionId, selector)]"

definition accepted :: "css_escape \<Rightarrow> 'a PluginIconsAssociation_scheme \<Rightarrow> (string \<times> string) list" where
  "accepted css associations = collectSelectors css associations record_call []"

text \<open>
  The calls a guarded \<open>accept\<close> and a loop over a dictionary make, as lists; they serve to
  write the calls of \<open>collectSelectors\<close> down.
\<close>

definition call_of :: "string option \<Rightarrow> string \<Rightarrow> (string \<times> string) list" where
  "call_of v selector = (case truthy v of None \<Rightarrow> [] | Some d \<Rightarrow> [(d, selector)])"

definition entry_calls ::
  "(string \<Rightarrow> string) \<Rightarrow> (string \<times> string) list option \<Rightarrow> (string \<times> string) list" where
  "entry_calls selectorOf names =
     (case names of None \<Rightarrow> [] | Some entries \<Rightarrow> map (\<lambda>(name, d). (d, selectorOf name)) entries)"

text \<open>A browser without \<open>CSS.escape\<close>: every call throws.\<close>

definition no_CSS_escape :: css_escape where
  "no_CSS_escape v = None"

section \<open>plugin-icon-theme-service.ts: the style sheet\<close>

text \<open>\<open>ThemeType\<close> of the theming service, and the text it contributes to a selector.\<close>

datatype ThemeType = Dark | Light | HC

fun themeType_text :: "ThemeType \<Rightarrow> string" where
  "themeType_text Dark = ''dark''"
| "themeType_text Light = ''light''"
| "themeType_text HC = ''hc''"

text \<open>
  \<open>definitionSelectors\<close> is a JavaScript \<open>Map\<close>: it keeps its keys in the order of their
  first insertion, and \<open>set\<close> on a key it holds replaces the value in place.
\<close>

type_synonym definitionSelectors = "(string \<times> string list) list"

fun map_set :: "'k \<Rightarrow> 'v \<Rightarrow> ('k \<times> 'v) list \<Rightarrow> ('k \<times> 'v) list" where
  "map_set k v [] = [(k, v)]"
| "map_set k v ((k', v') # kvs) = (if k' = k then (k, v) # kvs else (k', v') # map_set k v kvs)"

definition acceptSelector ::
  "js_value \<Rightarrow> ThemeType \<Rightarrow> string \<Rightarrow> string
     \<Rightarrow> definitionSelectors \<Rightarrow> definitionSelectors" where
  "acceptSelector iconDefs themeType definitionId selector ds =
     (case iconDefinition_at iconDefs definitionId of
        None \<Rightarrow> ds
      | Some _ \<Rightarrow>
          (let selectors = (case map_of ds definitionId of Some sels \<Rightarrow> sels | None \<Rightarrow> []);
               selector' = (if themeType \<noteq> Dark
                            then ''.theia-'' @ themeType_text themeType @ '' '' @ selector
                            else selector)
           in map_set definitionId (selectors @ [selector']) ds))"

text \<open>
  What \<open>load\<close> takes from its surroundings: the browser's \<open>CSS.escape\<close>; the file system
  and the JSON parser, as one function from the theme's uri to the parsed document
  (\<open>None\<close> when the read is rejected or the parser returns nothing to read properties
  of); and the second half of \<open>toCSSUrl\<close>, which resolves an icon path against the
  plugin's package with the \<open>URI\<close> class and returns \<open>undefined\<close> or the \<open>url(...)\<close> text.
\<close>

record host =
  CSS_escape :: css_escape
  resolveContent :: "string \<Rightarrow> PluginIconThemeDocument option"
  hostedUrl :: "string \<Rightarrow> string option"

definition toCSSUrl :: "host \<Rightarrow> string option \<Rightarrow> string option" where
  "toCSSUrl h iconPath' =
     (case truthy iconPath' of None \<Rightarrow> None | Some p \<Rightarrow> hostedUrl h p)"

definition nl :: string where
  "nl = [CHR 0x0A]"

definition sq :: string where
  "sq = [CHR 0x27]"

text \<open>A value of type \<open>string | undefined\<close> inside a template literal.\<close>

definition tpl :: "string option \<Rightarrow> string" where
  "tpl v = (case v of None \<Rightarrow> ''undefined'' | Some s \<Rightarrow> s)"

definition fontSrc :: "host \<Rightarrow> PluginFontDefinition \<Rightarrow> string" where
  "fontSrc h font =
     fold (\<lambda>srcLocation src.
             (case truthy (src_path srcLocation) of
                None \<Rightarrow> src
              | Some p \<Rightarrow>
                  (case truthy (toCSSUrl h (Some p)) of
                     None \<Rightarrow> src
                   | Some cssUrl \<Rightarrow>
                       (if src \<noteq> [] then src @ '', '' else src)
                       @ cssUrl @ '' format('' @ sq @ tpl (src_format srcLocation) @ sq @ '')'')))
          (case font_src font of None \<Rightarrow> [] | Some locations \<Rightarrow> locations) []"

definition fontFace :: "host \<Rightarrow> PluginFontDefinition \<Rightarrow> string" where
  "fontFace h font =
     (let src = fontSrc h font
      in if src \<noteq> []
         then ''@font-face {'' @ nl
              @ ''    src: '' @ src @ '';'' @ nl
              @ ''    font-family: '' @ sq @ tpl (font_id font) @ sq @ '';'' @ nl
              @ ''    font-weight: '' @ tpl (font_weight font) @ '';'' @ nl
              @ ''    font-style: '' @ tpl (font_style font) @ '';'' @ nl
              @ ''}'' @ nl
         else [])"

definition fontsCSS :: "host \<Rightarrow> PluginFontDefinition list option \<Rightarrow> string" where
  "fontsCSS h fonts' =
     (case fonts' of
        None \<Rightarrow> []
      | Some fs \<Rightarrow>
          fold (\<lambda>font content. content @ fontFace h font) fs []
          @ (case fs of
               [] \<Rightarrow> []
             | firstFont # _ \<Rightarrow>
                 (case truthy (font_id firstFont) of
                    None \<Rightarrow> []
                  | Some fid \<Rightarrow>
                      ''.'' @ fileIcon @ ''::before, .'' @ folderIcon @ ''::before, .''
                      @ rootFolderIcon @ ''::before {'' @ nl
                      @ ''    font-family: '' @ sq @ fid @ sq @ '';'' @ nl
                      @ ''    font-size: ''
                      @ (case truthy (font_size firstFont) of None \<Rightarrow> ''150%'' | Some sz \<Rightarrow> sz)
                      @ nl @ ''}'' @ nl)))"

text \<open>
  One pass of the last loop of \<open>load\<close>: the text appended for one key of
  \<open>definitionSelectors\<close>.
\<close>

definition definitionCSS ::
  "host \<Rightarrow> js_value \<Rightarrow> definitionSelectors \<Rightarrow> string \<Rightarrow> string" where
  "definitionCSS h iconDefs ds definitionId =
     (case (map_of ds definitionId, iconDefinition_at iconDefs definitionId) of
        (Some selectors, Some iconDefinition) \<Rightarrow>
          (case truthy (toCSSUrl h (iconPath iconDefinition)) of
             None \<Rightarrow> []
           | Some cssUrl \<Rightarrow>
               join selectors '', '' @ '' {'' @ nl
               @ ''    display: inline-block;'' @ nl
               @ ''    width: 16px;'' @ nl
               @ ''    height: 16px;'' @ nl
               @ ''    background-size: 16px;'' @ nl
               @ ''    background-image: '' @ cssUrl @ '';'' @ nl
               @ ''}'' @ nl)
          @ (if truthy (fontCharacter iconDefinition) \<noteq> None
                \<or> truthy (fontColor iconDefinition) \<noteq> None
             then (let body =
                         (case truthy (fontColor iconDefinition) of
                            None \<Rightarrow> [] | Some v \<Rightarrow> '' color: '' @ v @ '';'')
                         @ (case truthy (fontCharacter iconDefinition) of
                              None \<Rightarrow> [] | Some v \<Rightarrow> '' content: '' @ sq @ v @ sq @ '';'')
                         @ (case truthy (fontSize iconDefinition) of
                              None \<Rightarrow> [] | Some v \<Rightarrow> '' font-size: '' @ v @ '';'')
                         @ (case truthy (fontId iconDefinition) of
                              None \<Rightarrow> [] | Some v \<Rightarrow> '' font-family: '' @ v @ '';'')
                   in join (map (\<lambda>s. s @ ''::before'') selectors) '', ''
                      @ '' {'' @ body @ '' }'' @ nl)
             else [])
      | _ \<Rightarrow> [])"

text \<open>The table \<open>load\<close> fills by its three calls of \<open>collectSelectors\<close>.\<close>

definition collectAll ::
  "host \<Rightarrow> PluginIconThemeDocument \<Rightarrow> js_value \<Rightarrow> definitionSelectors" where
  "collectAll h json iconDefs =
     (let ds0 = collectSelectors (CSS_escape h) json (acceptSelector iconDefs Dark) [];
          ds1 = (case light json of
                   None \<Rightarrow> ds0
                 | Some l \<Rightarrow> collectSelectors (CSS_escape h) l (acceptSelector iconDefs Light) ds0)
      in (case highContrast json of
            None \<Rightarrow> ds1
          | Some c \<Rightarrow> collectSelectors (CSS_escape h) c (acceptSelector iconDefs HC) ds1))"


definition styleSheet ::
  "host \<Rightarrow> PluginIconThemeDocument \<Rightarrow> js_value \<Rightarrow> string" where
  "styleSheet h json iconDefs =
     (let ds = collectAll h json iconDefs
      in fold (\<lambda>definitionId content. content @ definitionCSS h iconDefs ds definitionId)
           (map fst ds) (fontsCSS h (fonts json)))"

text \<open>
  The theme object, and beside it the uris handed to \<open>fileSystem.resolveContent\<close> so far.
  \<open>load\<close> is asynchronous; the model runs one call to its end and returns how the promise
  settles.
\<close>

record PluginIconTheme =
  theme_id :: string
  label :: string
  uri :: string
  pluginId :: string
  packagePath :: string
  styleSheetContent :: "string option"

record world =
  theme :: PluginIconTheme
  reads :: "string list"

datatype outcome = Resolved | Rejected

definition load :: "host \<Rightarrow> world \<Rightarrow> outcome \<times> world" where
  "load h w =
     (if styleSheetContent (theme w) \<noteq> None then (Resolved, w)
      else
        (let w1 = w\<lparr>theme := (theme w)\<lparr>styleSheetContent := Some []\<rparr>,
                    reads := reads w @ [uri (theme w)]\<rparr>
         in (case resolveContent h (uri (theme w)) of
               None \<Rightarrow> (Rejected, w1)
             | Some json \<Rightarrow>
                 (case iconDefinitions json of
                    None \<Rightarrow> (Resolved, w1)
                  | Some iconDefs \<Rightarrow>
                      if \<not> is_truthy iconDefs then (Resolved, w1)
                      else (Resolved,
                            w1\<lparr>theme := (theme w1)\<lparr>styleSheetContent :=
                                                      Some (styleSheet h json iconDefs)\<rparr>\<rparr>)))))"



section \<open>label-provider.ts\<close>

text \<open>
  A contribution is its \<open>canHandle\<close> and its optional methods; a method it lacks is
  \<open>None\<close>, and a method may return \<open>undefined\<close> (\<open>None\<close>). The number \<open>canHandle\<close>
  returns is an integer here, as every contribution of the sources returns one.
\<close>

record 'e LabelProviderContribution =
  canHandle :: "'e \<Rightarrow> int"
  getIcon :: "('e \<Rightarrow> string option) option"
  getName :: "('e \<Rightarrow> string option) option"
  getLongName :: "('e \<Rightarrow> string option) option"

record 'a Prioritizeable =
  priority :: int
  "value" :: 'a

text \<open>
  Modelled from the spec: \<open>Prioritizeable.prioritizeAllSync\<close> of
  \<open>core/src/common/types.ts\<close>, which \<open>findContribution\<close> calls and which is not among the
  sources. The documentation of \<open>canHandle\<close> gives its contract: all contributions are
  ordered by the returned number if greater than zero, and the highest number wins; which
  of two contributions with the same number comes first is left open there. The model
  keeps the values with a positive priority and orders them by falling priority, equal
  priorities in the order they were given.
\<close>

definition prioritizeAllSync :: "'a list \<Rightarrow> ('a \<Rightarrow> int) \<Rightarrow> 'a Prioritizeable list" where
  "prioritizeAllSync values getPriority =
     sort_key (\<lambda>p. - priority p)
       (filter (\<lambda>p. 0 < priority p)
          (map (\<lambda>v. \<lparr>priority = getPriority v, value = v\<rparr>) values))"

definition findContribution ::
  "'e LabelProviderContribution list \<Rightarrow> 'e \<Rightarrow> 'e LabelProviderContribution list" where
  "findContribution contributions element =
     map value (prioritizeAllSync contributions (\<lambda>contrib. canHandle contrib element))"

text \<open>\<open>contribution.m && contribution.m(element)\<close> for an optional method \<open>m\<close>.\<close>

definition call_optional :: "('e \<Rightarrow> string option) option \<Rightarrow> 'e \<Rightarrow> string option" where
  "call_optional m element = (case m of None \<Rightarrow> None | Some f \<Rightarrow> f element)"

text \<open>
  The loop the three getters share: the first value that is not \<open>undefined\<close>, or the
  getter's fallback after the last contribution.
\<close>

fun first_defined :: "('c \<Rightarrow> string option) \<Rightarrow> string \<Rightarrow> 'c list \<Rightarrow> string" where
  "first_defined get fallback [] = fallback"
| "first_defined get fallback (contribution # contributions) =
     (case get contribution of
        None \<Rightarrow> first_defined get fallback contributions
      | Some v \<Rightarrow> v)"

definition LabelProvider_getIcon :: "'e LabelProviderContribution list \<Rightarrow> 'e \<Rightarrow> string" where
  "LabelProvider_getIcon contributions element =
     first_defined (\<lambda>contribution. call_optional (getIcon contribution) element) []
       (findContribution contributions element)"

definition LabelProvider_getName :: "'e LabelProviderContribution list \<Rightarrow> 'e \<Rightarrow> string" where
  "LabelProvider_getName contributions element =
     first_defined (\<lambda>contribution. call_optional (getName contribution) element) ''<unknown>''
       (findContribution contributions element)"

definition LabelProvider_getLongName :: "'e LabelProviderContribution list \<Rightarrow> 'e \<Rightarrow> string" where
  "LabelProvider_getLongName contributions element =
     first_defined (\<lambda>contribution. call_optional (getLongName contribution) element) []
       (findContribution contributions element)"

section \<open>plugin-icon-theme-service.ts: icons of elements\<close>

text \<open>
  An element is an arbitrary object. The icon theme looks at it through the type guards of
  the file system and navigator packages and through a few properties, so an element is
  represented by what those return for it.
\<close>

record element =
  instanceof_URI :: bool
  scheme :: string
  path_ext :: string
  toString :: string
  FileStat_is :: bool
  stat_uri :: string
  isDirectory :: bool
  FileStatNode_is :: bool
  fileStat_uri :: string
  DirNode_is :: bool
  WorkspaceRootNode_is :: bool
  expanded :: bool

text \<open>
  \<open>PluginIconTheme.getIcon\<close> asks the label provider for the element's name and the
  editor's mode service for the language of a file; \<open>languageOf\<close> stands for the latter.
\<close>

definition getFolderIcon ::
  "css_escape \<Rightarrow> element LabelProviderContribution list \<Rightarrow> element \<Rightarrow> string" where
  "getFolderIcon css contributions el =
     (let name = LabelProvider_getName contributions el
      in folderIcon @ '' '' @ folderNameIcon css name)"

definition getFileIcon ::
  "css_escape \<Rightarrow> (string \<Rightarrow> string) \<Rightarrow> element LabelProviderContribution list
     \<Rightarrow> element \<Rightarrow> string \<Rightarrow> string" where
  "getFileIcon css languageOf contributions el uri' =
     (let name = LabelProvider_getName contributions el;
          classNames = fileIcon # fileNameIcon css name;
          language = languageOf uri'
      in join (classNames @ [languageIcon css language]) '' '')"

definition PluginIconTheme_getIcon ::
  "css_escape \<Rightarrow> (string \<Rightarrow> string) \<Rightarrow> element LabelProviderContribution list
     \<Rightarrow> element \<Rightarrow> string" where
  "PluginIconTheme_getIcon css languageOf contributions el =
     (if WorkspaceRootNode_is el
      then (let name = LabelProvider_getName contributions el
            in if expanded el
               then rootFolderExpandedIcon @ '' '' @ expandedFolderNameIcon css name
               else rootFolderIcon @ '' '' @ folderNameIcon css name)
      else if DirNode_is el
      then (if expanded el
            then (let name = LabelProvider_getName contributions el
                  in folderExpandedIcon @ '' '' @ expandedFolderNameIcon css name)
            else getFolderIcon css contributions el)
      else if FileStatNode_is el
      then getFileIcon css languageOf contributions el (fileStat_uri el)
      else if FileStat_is el
      then (if isDirectory el then getFolderIcon css contributions el
            else getFileIcon css languageOf contributions el (stat_uri el))
      else if path_ext el = [] then getFolderIcon css contributions el
      else getFileIcon css languageOf contributions el (toString el))"

text \<open>
  What \<open>iconThemeService.getDefinition(iconThemeService.current)\<close> returns: a
  \<open>PluginIconTheme\<close>, a definition of another class, or \<open>undefined\<close>.
\<close>

datatype IconThemeDefinition = Plugin PluginIconTheme | Other string

definition MAX_SAFE_INTEGER :: int where
  "MAX_SAFE_INTEGER = 2 ^ 53 - 1"

definition PluginIconThemeService_canHandle :: "IconThemeDefinition option \<Rightarrow> element \<Rightarrow> int" where
  "PluginIconThemeService_canHandle current el =
     (if (case current of Some (Plugin _) \<Rightarrow> True | _ \<Rightarrow> False)
         \<and> ((instanceof_URI el \<and> scheme el = ''file'') \<or> FileStat_is el \<or> FileStatNode_is el)
      then MAX_SAFE_INTEGER else 0)"

definition PluginIconThemeService_getIcon ::
  "css_escape \<Rightarrow> (string \<Rightarrow> string) \<Rightarrow> element LabelProviderContribution list
     \<Rightarrow> IconThemeDefinition option \<Rightarrow> element \<Rightarrow> string option" where
  "PluginIconThemeService_getIcon css languageOf contributions current el =
     (case current of
        Some (Plugin _) \<Rightarrow> Some (PluginIconTheme_getIcon css languageOf contributions el)
      | _ \<Rightarrow> None)"

section \<open>vscx-install-button-component.tsx\<close>

text \<open>
  The button holds an extension and the extensions service. The service is outside the
  sources: the model writes down the calls it receives, each with the extension as it was
  handed over. \<open>propagation_stopped\<close> is the click event's flag.
\<close>

record VSCodeExtension =
  busy :: bool
  installed :: bool
  outdated :: bool

datatype service_call = install VSCodeExtension | uninstall VSCodeExtension

record button =
  extension :: VSCodeExtension
  service :: "service_call list"
  propagation_stopped :: bool

definition onInstallButtonClicked :: "button \<Rightarrow> button" where
  "onInstallButtonClicked b =
     (let b1 = b\<lparr>extension := (extension b)\<lparr>busy := True\<rparr>\<rparr>
      in b1\<lparr>service := service b1 @ [install (extension b1)]\<rparr>)"

definition onUninstallButtonClicked :: "button \<Rightarrow> button" where
  "onUninstallButtonClicked b =
     (let b1 = b\<lparr>extension := (extension b)\<lparr>busy := True\<rparr>\<rparr>
      in b1\<lparr>service := service b1 @ [uninstall (extension b1)]\<rparr>)"

definition onClick :: "button \<Rightarrow> button" where
  "onClick b =
     (if \<not> busy (extension b)
      then (let b1 = (if installed (extension b) then onUninstallButtonClicked b
                      else onInstallButtonClicked b)
            in b1\<lparr>propagation_stopped := True\<rparr>)
      else b)"

section \<open>Properties of the string functions\<close>

lemma split_no_sep: "c \<notin> set s \<Longrightarrow> split s c = [s]"
  by (induction s) auto

lemma split_append_sep: "c \<notin> set s \<Longrightarrow> split (s @ c # rest) c = s # split rest c"
  by (induction s) auto

lemma split_join:
  "ss \<noteq> [] \<Longrightarrow> \<forall>s\<in>set ss. c \<notin> set s \<Longrightarrow> split (join ss [c]) c = ss"
proof (induction ss "[c]" rule: join.induct)
  case 1
  then show ?case by simp
next
  case (2 s)
  then show ?case by (simp add: split_no_sep)
next
  case (3 s t ss)
  then show ?case by (simp add: split_append_sep)
qed

lemma split_not_Nil: "split s c \<noteq> []"
  by (induction s) (auto split: list.splits)

lemma split_segments: "seg \<in> set (split s c) \<Longrightarrow> c \<notin> set seg"
  by (induction s arbitrary: seg) (auto split: list.splits if_splits)

lemma join_Cons_Cons: "join ((x # s) # ss) sep = x # join (s # ss) sep"
  by (cases ss) auto

lemma join_Nil_Cons: "ss \<noteq> [] \<Longrightarrow> join ([] # ss) sep = sep @ join ss sep"
  by (cases ss) auto

lemma join_split: "join (split s c) [c] = s"
proof (induction s)
  case Nil
  then show ?case by simp
next
  case (Cons x xs)
  obtain seg segs where sp: "split xs c = seg # segs"
    using split_not_Nil[of xs c] by (cases "split xs c") auto
  show ?case
  proof (cases "x = c")
    case True
    with Cons sp show ?thesis by (simp add: join_Nil_Cons)
  next
    case False
    with Cons sp show ?thesis by (simp add: join_Cons_Cons)
  qed
qed

lemma fileExtensionIcon_loop_eq:
  "fileExtensionIcon_loop css segs i icons =
     icons @ map (\<lambda>j. ''theia-plugin-'' @ escapeCSS css (join (drop j segs) ''.'') @ ''-ext-file-icon'')
               [i..<length segs]"
proof (induction css segs i icons rule: fileExtensionIcon_loop.induct)
  case (1 css segments i icons)
  show ?case
  proof (cases "i < length segments")
    case True
    then show ?thesis
      using 1 by (subst fileExtensionIcon_loop.simps) (simp add: upt_rec[of i] slice_def)
  next
    case False
    then show ?thesis
      by (subst fileExtensionIcon_loop.simps) simp
  qed
qed

lemma fileExtensionIcon_eq:
  "fileExtensionIcon css ext =
     map (\<lambda>j. ''theia-plugin-'' @ escapeCSS css (join (drop j (split ext CHR ''.'')) ''.'') @ ''-ext-file-icon'')
         [0..<length (split ext CHR ''.'')] @ [''theia-plugin-ext-file-icon'']"
  by (simp add: fileExtensionIcon_def Let_def fileExtensionIcon_loop_eq split_not_Nil)

lemma indexOf_range: "- 1 \<le> indexOf s c"
  by (induction s) (auto simp: Let_def)

lemma indexOf_absent: "indexOf s c = - 1 \<longleftrightarrow> c \<notin> set s"
proof (induction s)
  case Nil
  then show ?case by simp
next
  case (Cons x xs)
  have "- 1 \<le> indexOf xs c" by (rule indexOf_range)
  then have "indexOf xs c + 1 \<noteq> - 1" by arith
  with Cons show ?case by (auto simp: Let_def)
qed

lemma substr_indexOf:
  "c \<in> set s \<Longrightarrow> substr s (indexOf s c + 1) = tl (dropWhile (\<lambda>x. x \<noteq> c) s)"
proof (induction s)
  case Nil
  then show ?case by simp
next
  case (Cons x xs)
  show ?case
  proof (cases "x = c")
    case True
    then show ?thesis by (simp add: substr_def)
  next
    case False
    with Cons.prems have in_xs: "c \<in> set xs" by simp
    then have "indexOf xs c \<noteq> - 1" by (simp add: indexOf_absent)
    moreover from this have "0 \<le> indexOf xs c" using indexOf_range[of xs c] by arith
    ultimately show ?thesis
      using False Cons.IH[OF in_xs] by (simp add: substr_def Let_def nat_add_distrib)
  qed
qed

lemma dotted_eq: "dotted names = concat (map (\<lambda>v. ''.'' @ v) names)"
proof -
  have "foldl (\<lambda>r v. r @ ''.'' @ v) acc names = acc @ concat (map (\<lambda>v. ''.'' @ v) names)" for acc
    by (induction names arbitrary: acc) auto
  then show ?thesis by (simp add: dotted_def)
qed

section \<open>The calls of \<open>collectSelectors\<close>\<close>

lemma accept_opt_record_call: "accept_opt record_call v sel s = s @ call_of v sel"
  by (simp add: accept_opt_def record_call_def call_of_def split: option.splits)

lemma fold_record_call:
  "fold (\<lambda>(k, d). record_call d (f k)) xs s = s @ map (\<lambda>(k, d). (d, f k)) xs"
  by (induction xs arbitrary: s) (auto simp: record_call_def)

lemma accept_entries_record_call: "accept_entries record_call f m s = s @ entry_calls f m"
  by (simp add: accept_entries_def entry_calls_def fold_record_call split: option.splits)

lemma accepted_eq:
  "accepted css a =
     call_of (folder a) (''.'' @ folderIcon)
     @ call_of (folderExpanded a) (''.'' @ folderExpandedIcon)
     @ call_of (or_else (rootFolder a) (folder a)) (''.'' @ rootFolderIcon)
     @ call_of (or_else (rootFolderExpanded a) (folderExpanded a)) (''.'' @ rootFolderExpandedIcon)
     @ call_of (file_id a) (''.'' @ fileIcon)
     @ entry_calls (\<lambda>k. ''.'' @ folderNameIcon css k @ ''.'' @ folderIcon) (folderNames a)
     @ entry_calls (\<lambda>k. ''.'' @ expandedFolderNameIcon css k @ ''.'' @ folderExpandedIcon)
         (folderNamesExpanded a)
     @ entry_calls (\<lambda>k. dotted (fileNameIcon css k) @ ''.'' @ fileIcon) (fileNames a)
     @ entry_calls (\<lambda>k. dotted (fileExtensionIcon css k) @ ''.'' @ fileIcon) (fileExtensions a)
     @ (case fileExtensions a of
          None \<Rightarrow> []
        | Some exts \<Rightarrow>
            entry_calls (\<lambda>k. ''.'' @ languageIcon css k @ ''.'' @ fileIcon) (languageIds a))"
  unfolding accepted_def collectSelectors_def Let_def
    accept_opt_record_call accept_entries_record_call
  by (simp split: option.splits)





lemma entry_calls_member:
  "m = Some entries \<Longrightarrow> (k, d) \<in> set entries \<Longrightarrow> (d, f k) \<in> set (entry_calls f m)"
  by (force simp: entry_calls_def)

subsection \<open>Extension classes and their selector\<close>

text \<open>
  C3: a key of \<open>fileExtensions\<close> whose dot-separated segments are \<open>s1, ..., sn\<close> (at least
  one, none of them containing a dot) gets from \<open>fileExtensionIcon\<close> the \<open>n\<close> classes
  \<open>theia-plugin-<escapeCSS(si. ... .sn)>-ext-file-icon\<close>, \<open>i\<close> from 1 to \<open>n\<close> in this order,
  and then the class \<open>theia-plugin-ext-file-icon\<close>; \<open>collectSelectors\<close> hands to \<open>accept\<close>,
  for the definition id of that key, the one selector made of these classes, each behind a
  dot, and of \<open>.theia-plugin-file-icon\<close>.
\<close>

theorem fileExtension_selector:
  assumes "ss \<noteq> []" and "\<forall>s\<in>set ss. CHR ''.'' \<notin> set s"
  shows "fileExtensionIcon css (join ss ''.'') =
           map (\<lambda>i. ''theia-plugin-'' @ escapeCSS css (join (drop i ss) ''.'') @ ''-ext-file-icon'')
             [0..<length ss]
           @ [''theia-plugin-ext-file-icon'']
         \<and> (fileExtensions a = Some exts \<and> (join ss ''.'', d) \<in> set exts \<longrightarrow>
              (d, concat (map (\<lambda>c. ''.'' @ c)
                     (map (\<lambda>i. ''theia-plugin-'' @ escapeCSS css (join (drop i ss) ''.'')
                                 @ ''-ext-file-icon'') [0..<length ss]
                      @ [''theia-plugin-ext-file-icon'']))
                  @ ''.theia-plugin-file-icon'')
              \<in> set (accepted css a))"
proof -
  have sp: "split (join ss ''.'') CHR ''.'' = ss"
    using assms split_join[of ss "CHR ''.''"] by simp
  have icons: "fileExtensionIcon css (join ss ''.'') =
           map (\<lambda>i. ''theia-plugin-'' @ escapeCSS css (join (drop i ss) ''.'') @ ''-ext-file-icon'')
             [0..<length ss]
           @ [''theia-plugin-ext-file-icon'']"
    by (simp only: fileExtensionIcon_eq sp)
  have sel: "(d, dotted (fileExtensionIcon css (join ss ''.'')) @ ''.'' @ fileIcon) \<in> set (accepted css a)"
    if "fileExtensions a = Some exts" and "(join ss ''.'', d) \<in> set exts"
    using entry_calls_member[OF that, of "\<lambda>k. dotted (fileExtensionIcon css k) @ ''.'' @ fileIcon"]
    by (simp add: accepted_eq)
  show ?thesis
    using icons sel by (simp add: dotted_eq fileIcon_def)
qed

theorem fileExtension_selector_witness:
  "fileExtensionIcon no_CSS_escape ''d.ts'' =
     [''theia-plugin-d-ts-ext-file-icon'', ''theia-plugin-ts-ext-file-icon'',
      ''theia-plugin-ext-file-icon'']
   \<and> (''_ts'', ''.theia-plugin-d-ts-ext-file-icon.theia-plugin-ts-ext-file-icon.theia-plugin-ext-file-icon.theia-plugin-file-icon'')
     \<in> set (accepted no_CSS_escape
          \<lparr>folder = None, file_id = None, folderExpanded = None, rootFolder = None,
           rootFolderExpanded = None, folderNames = None, folderNamesExpanded = None,
           fileExtensions = Some [(''d.ts'', ''_ts'')], fileNames = None, languageIds = None\<rparr>)"
  using fileExtension_selector [of "[''d'', ''ts'']" no_CSS_escape
      "\<lparr>folder = None, file_id = None, folderExpanded = None, rootFolder = None,
           rootFolderExpanded = None, folderNames = None, folderNamesExpanded = None,
           fileExtensions = Some [(''d.ts'', ''_ts'')], fileNames = None, languageIds = None\<rparr>"
      "[(''d.ts'', ''_ts'')]" "''_ts''"]
  by (simp add: escapeCSS_def no_CSS_escape_def lower_letters_def upper_letters_def digits_def
      upt_rec)

subsection \<open>File name classes\<close>

text \<open>
  C4: \<open>fileNameIcon\<close> lowercases the name; the first class of its result is
  \<open>theia-plugin-<escapeCSS(lowercased name)>-file-name-icon\<close>. When the lowercased name has a
  dot, the classes of \<open>fileExtensionIcon\<close> for the text behind the first dot follow, and when
  it has none the file-name class is the whole result.
\<close>

theorem fileNameIcon_classes:
  "fileNameIcon css name =
     (let lowered = toLowerCase name;
          nameClass = ''theia-plugin-'' @ escapeCSS css lowered @ ''-file-name-icon''
      in if CHR ''.'' \<in> set lowered
         then nameClass # fileExtensionIcon css (tl (dropWhile (\<lambda>c. c \<noteq> CHR ''.'') lowered))
         else [nameClass])"
  by (simp add: fileNameIcon_def Let_def indexOf_absent substr_indexOf)

theorem fileNameIcon_classes_witness:
  "fileNameIcon no_CSS_escape ''Index.D.TS'' =
     [''theia-plugin-index-d-ts-file-name-icon'', ''theia-plugin-d-ts-ext-file-icon'',
      ''theia-plugin-ts-ext-file-icon'', ''theia-plugin-ext-file-icon'']
   \<and> fileNameIcon no_CSS_escape ''Makefile'' = [''theia-plugin-makefile-file-name-icon'']"
  using fileNameIcon_classes [of no_CSS_escape "''Index.D.TS''"]
    fileNameIcon_classes [of no_CSS_escape "''Makefile''"]
  by (simp add: toLowerCase_def escapeCSS_def no_CSS_escape_def lower_letters_def
      upper_letters_def digits_def fileExtensionIcon_eq upt_rec)

subsection \<open>Language associations\<close>

text \<open>
  With a \<open>fileExtensions\<close> map beside it (possibly empty), every entry of \<open>languageIds\<close>
  reaches \<open>accept\<close>.
\<close>

lemma languageIds_with_fileExtensions:
  assumes "fileExtensions a = Some exts" and "languageIds a = Some langs"
    and "(languageId, d) \<in> set langs"
  shows "(d, ''.'' @ languageIcon css languageId @ ''.theia-plugin-file-icon'')
           \<in> set (accepted css a)"
  using entry_calls_member[OF assms(2,3), of "\<lambda>k. ''.'' @ languageIcon css k @ ''.'' @ fileIcon"]
    assms(1)
  by (simp add: accepted_eq fileIcon_def)

text \<open>
  C1: language associations are to yield selectors whether or not the associations have a
  \<open>fileExtensions\<close> map. The loop over \<open>languageIds\<close> is guarded by \<open>fileExtensions\<close>:
  associations with the one language \<open>typescript\<close> and no \<open>fileExtensions\<close> yield no call
  of \<open>accept\<close> at all, while the same associations with an empty \<open>fileExtensions\<close> map
  yield the language selector.
\<close>

theorem languageIds_need_fileExtensions:
  "accepted no_CSS_escape
     \<lparr>folder = None, file_id = None, folderExpanded = None, rootFolder = None,
      rootFolderExpanded = None, folderNames = None, folderNamesExpanded = None,
      fileExtensions = None, fileNames = None,
      languageIds = Some [(''typescript'', ''_ts'')]\<rparr> = []
   \<and> accepted no_CSS_escape
     \<lparr>folder = None, file_id = None, folderExpanded = None, rootFolder = None,
      rootFolderExpanded = None, folderNames = None, folderNamesExpanded = None,
      fileExtensions = Some [], fileNames = None,
      languageIds = Some [(''typescript'', ''_ts'')]\<rparr>
     = [(''_ts'', ''.theia-plugin-typescript-lang-file-icon.theia-plugin-file-icon'')]"
  by (simp add: accepted_eq call_of_def entry_calls_def truthy_def or_else_def languageIcon_def
      escapeCSS_def no_CSS_escape_def lower_letters_def upper_letters_def digits_def fileIcon_def)

subsection \<open>Root folders fall back to folders\<close>

text \<open>
  C7: when \<open>rootFolder\<close> is absent and \<open>folder\<close> is present, \<open>collectSelectors\<close> hands
  \<open>.theia-plugin-root-folder-icon\<close> to \<open>accept\<close> for the id in \<open>folder\<close>, and when
  \<open>rootFolderExpanded\<close> is absent and \<open>folderExpanded\<close> is present, it hands
  \<open>.theia-plugin-root-folder-expanded-icon\<close> to \<open>accept\<close> for the id in
  \<open>folderExpanded\<close>. Absent and present are what the code tests: a property that is
  missing or the empty string is absent, any other is present.
\<close>

theorem rootFolder_fallback:
  "(truthy (rootFolder a) = None \<and> truthy (folder a) = Some d \<longrightarrow>
      (d, ''.theia-plugin-root-folder-icon'') \<in> set (accepted css a))
   \<and> (truthy (rootFolderExpanded a) = None \<and> truthy (folderExpanded a) = Some e \<longrightarrow>
      (e, ''.theia-plugin-root-folder-expanded-icon'') \<in> set (accepted css a))"
  by (simp add: accepted_eq call_of_def or_else_def rootFolderIcon_def
      rootFolderExpandedIcon_def)

theorem rootFolder_fallback_witness:
  "(''_folder'', ''.theia-plugin-root-folder-icon'')
     \<in> set (accepted no_CSS_escape
          \<lparr>folder = Some ''_folder'', file_id = None, folderExpanded = Some ''_folder_open'',
           rootFolder = None, rootFolderExpanded = None, folderNames = None,
           folderNamesExpanded = None, fileExtensions = None, fileNames = None,
           languageIds = None\<rparr>)
   \<and> (''_folder_open'', ''.theia-plugin-root-folder-expanded-icon'')
     \<in> set (accepted no_CSS_escape
          \<lparr>folder = Some ''_folder'', file_id = None, folderExpanded = Some ''_folder_open'',
           rootFolder = None, rootFolderExpanded = None, folderNames = None,
           folderNamesExpanded = None, fileExtensions = None, fileNames = None,
           languageIds = None\<rparr>)"
  using rootFolder_fallback [of "\<lparr>folder = Some ''_folder'', file_id = None, folderExpanded = Some ''_folder_open'',
           rootFolder = None, rootFolderExpanded = None, folderNames = None,
           folderNamesExpanded = None, fileExtensions = None, fileNames = None,
           languageIds = None\<rparr>" "''_folder''" no_CSS_escape "''_folder_open''"]
  by (simp add: truthy_def)

section \<open>The style sheet names icons that the definitions give\<close>















text \<open>
  Under the prototype \<open>Object.prototype\<close>, a read finds an own entry, a built-in function
  or the prototype itself, and only an own entry can hold a string property.
\<close>

lemma string_property_builtin [simp]:
  "string_property Object_prototype key = None"
  "string_property JS_function key = None"
  by (simp_all add: string_property_def)






section \<open>Loading once\<close>

text \<open>
  C9: a call of \<open>load\<close> that finds \<open>styleSheetContent\<close> defined resolves at once and changes
  neither the theme nor the list of files read. Every call leaves \<open>styleSheetContent\<close>
  defined, so a call after a completed call is of that kind.
\<close>

theorem load_idempotent:
  "(styleSheetContent (theme w) \<noteq> None \<longrightarrow> load h w = (Resolved, w))
   \<and> styleSheetContent (theme (snd (load h w))) \<noteq> None
   \<and> load h (snd (load h w)) = (Resolved, snd (load h w))"
proof -
  have first: "load h w' = (Resolved, w')" if "styleSheetContent (theme w') \<noteq> None" for w'
    using that by (simp add: load_def)
  have defined: "styleSheetContent (theme (snd (load h w))) \<noteq> None"
    by (simp add: load_def Let_def split: option.splits)
  show ?thesis
    using first[of w] defined first[OF defined] by simp
qed

theorem load_idempotent_witness:
  "load \<lparr>CSS_escape = no_CSS_escape, resolveContent = (\<lambda>u. None), hostedUrl = (\<lambda>p. None)\<rparr>
     \<lparr>theme = \<lparr>theme_id = ''p-t'', label = ''T'', uri = ''file:///p/t.json'', pluginId = ''p'',
               packagePath = ''/p'', styleSheetContent = Some ''a {}''\<rparr>,
      reads = [''file:///p/t.json'']\<rparr>
   = (Resolved,
      \<lparr>theme = \<lparr>theme_id = ''p-t'', label = ''T'', uri = ''file:///p/t.json'', pluginId = ''p'',
                packagePath = ''/p'', styleSheetContent = Some ''a {}''\<rparr>,
       reads = [''file:///p/t.json'']\<rparr>)
   \<and> reads (snd (load \<lparr>CSS_escape = no_CSS_escape, resolveContent = (\<lambda>u. None),
                        hostedUrl = (\<lambda>p. None)\<rparr>
        (snd (load \<lparr>CSS_escape = no_CSS_escape, resolveContent = (\<lambda>u. None),
                    hostedUrl = (\<lambda>p. None)\<rparr>
          \<lparr>theme = \<lparr>theme_id = ''p-t'', label = ''T'', uri = ''file:///p/t.json'',
                    pluginId = ''p'', packagePath = ''/p'', styleSheetContent = None\<rparr>,
           reads = []\<rparr>)))) = [''file:///p/t.json'']"
proof -
  let ?h = "\<lparr>CSS_escape = no_CSS_escape, resolveContent = (\<lambda>u. None), hostedUrl = (\<lambda>p. None)\<rparr>"
  let ?w1 = "\<lparr>theme = \<lparr>theme_id = ''p-t'', label = ''T'', uri = ''file:///p/t.json'', pluginId = ''p'',
               packagePath = ''/p'', styleSheetContent = Some ''a {}''\<rparr>,
      reads = [''file:///p/t.json'']\<rparr>"
  let ?w0 = "\<lparr>theme = \<lparr>theme_id = ''p-t'', label = ''T'', uri = ''file:///p/t.json'',
                    pluginId = ''p'', packagePath = ''/p'', styleSheetContent = None\<rparr>,
           reads = []\<rparr>"
  have "styleSheetContent (theme ?w1) \<noteq> None" by simp
  with load_idempotent [of ?w1 ?h] have a: "load ?h ?w1 = (Resolved, ?w1)" by blast
  have once: "reads (snd (load ?h ?w0)) = [''file:///p/t.json'']"
    by (simp add: load_def)
  from load_idempotent [of ?w0 ?h] have "load ?h (snd (load ?h ?w0)) = (Resolved, snd (load ?h ?w0))"
    by blast
  then have "reads (snd (load ?h (snd (load ?h ?w0)))) = reads (snd (load ?h ?w0))" by simp
  with a once show ?thesis by simp
qed

section \<open>The icon theme as a label provider contribution\<close>

text \<open>
  C6: \<open>canHandle\<close> of the service is \<open>Number.MAX_SAFE_INTEGER\<close> exactly when the current
  definition is a \<open>PluginIconTheme\<close> and the element is a \<open>URI\<close> of scheme \<open>file\<close>, a
  \<open>FileStat\<close> or a \<open>FileStatNode\<close>, and \<open>0\<close> otherwise; \<open>getIcon\<close> of the service is
  \<open>undefined\<close> whenever the current definition is not a \<open>PluginIconTheme\<close>.
\<close>

theorem canHandle_cases:
  "(PluginIconThemeService_canHandle current el = MAX_SAFE_INTEGER \<longleftrightarrow>
      (\<exists>t. current = Some (Plugin t))
      \<and> ((instanceof_URI el \<and> scheme el = ''file'') \<or> FileStat_is el \<or> FileStatNode_is el))
   \<and> (PluginIconThemeService_canHandle current el \<noteq> MAX_SAFE_INTEGER \<longrightarrow>
        PluginIconThemeService_canHandle current el = 0)
   \<and> ((\<forall>t. current \<noteq> Some (Plugin t)) \<longrightarrow>
        PluginIconThemeService_getIcon css languageOf contributions current el = None)"
  by (auto simp: PluginIconThemeService_canHandle_def PluginIconThemeService_getIcon_def
      MAX_SAFE_INTEGER_def split: option.splits IconThemeDefinition.splits)

theorem canHandle_cases_witness:
  "PluginIconThemeService_canHandle
     (Some (Plugin \<lparr>theme_id = ''p-t'', label = ''T'', uri = ''file:///p/t.json'', pluginId = ''p'',
                    packagePath = ''/p'', styleSheetContent = None\<rparr>))
     \<lparr>instanceof_URI = True, scheme = ''file'', path_ext = ''.ts'', toString = ''file:///a.ts'',
      FileStat_is = False, stat_uri = [], isDirectory = False, FileStatNode_is = False,
      fileStat_uri = [], DirNode_is = False, WorkspaceRootNode_is = False, expanded = False\<rparr>
   = 9007199254740991
   \<and> PluginIconThemeService_canHandle (Some (Other ''none''))
     \<lparr>instanceof_URI = True, scheme = ''file'', path_ext = ''.ts'', toString = ''file:///a.ts'',
      FileStat_is = False, stat_uri = [], isDirectory = False, FileStatNode_is = False,
      fileStat_uri = [], DirNode_is = False, WorkspaceRootNode_is = False, expanded = False\<rparr>
   = 0
   \<and> PluginIconThemeService_getIcon no_CSS_escape (\<lambda>u. ''typescript'') [] (Some (Other ''none''))
     \<lparr>instanceof_URI = True, scheme = ''file'', path_ext = ''.ts'', toString = ''file:///a.ts'',
      FileStat_is = False, stat_uri = [], isDirectory = False, FileStatNode_is = False,
      fileStat_uri = [], DirNode_is = False, WorkspaceRootNode_is = False, expanded = False\<rparr>
   = None"
proof -
  let ?t = "\<lparr>theme_id = ''p-t'', label = ''T'', uri = ''file:///p/t.json'', pluginId = ''p'',
                    packagePath = ''/p'', styleSheetContent = None\<rparr>"
  let ?el = "\<lparr>instanceof_URI = True, scheme = ''file'', path_ext = ''.ts'', toString = ''file:///a.ts'',
      FileStat_is = False, stat_uri = [], isDirectory = False, FileStatNode_is = False,
      fileStat_uri = [], DirNode_is = False, WorkspaceRootNode_is = False, expanded = False\<rparr>"
  have "PluginIconThemeService_canHandle (Some (Plugin ?t)) ?el = MAX_SAFE_INTEGER"
    using canHandle_cases [of "Some (Plugin ?t)" ?el] by simp
  moreover have "PluginIconThemeService_canHandle (Some (Other ''none'')) ?el = 0"
    and "PluginIconThemeService_getIcon no_CSS_escape (\<lambda>u. ''typescript'') [] (Some (Other ''none'')) ?el
           = None"
    using canHandle_cases [of "Some (Other ''none'')" ?el no_CSS_escape "\<lambda>u. ''typescript''" "[]"]
    by simp_all
  ultimately show ?thesis by (simp add: MAX_SAFE_INTEGER_def)
qed

section \<open>Clicks on the install button\<close>

text \<open>
  C5: a click while the extension is busy changes nothing and calls nothing. Otherwise the
  click sets \<open>busy\<close> and calls \<open>uninstall\<close> of the service on the extension when it is
  installed, \<open>install\<close> when it is not (and stops the propagation of the event).
\<close>

theorem onClick_cases:
  "(busy (extension b) \<longrightarrow> onClick b = b)
   \<and> (\<not> busy (extension b) \<and> installed (extension b) \<longrightarrow>
        onClick b = b\<lparr>extension := (extension b)\<lparr>busy := True\<rparr>,
                      service := service b @ [uninstall ((extension b)\<lparr>busy := True\<rparr>)],
                      propagation_stopped := True\<rparr>)
   \<and> (\<not> busy (extension b) \<and> \<not> installed (extension b) \<longrightarrow>
        onClick b = b\<lparr>extension := (extension b)\<lparr>busy := True\<rparr>,
                      service := service b @ [install ((extension b)\<lparr>busy := True\<rparr>)],
                      propagation_stopped := True\<rparr>)"
  by (simp add: onClick_def onInstallButtonClicked_def onUninstallButtonClicked_def Let_def)

theorem onClick_cases_witness:
  "onClick \<lparr>extension = \<lparr>busy = True, installed = True, outdated = False\<rparr>, service = [],
            propagation_stopped = False\<rparr>
   = \<lparr>extension = \<lparr>busy = True, installed = True, outdated = False\<rparr>, service = [],
      propagation_stopped = False\<rparr>
   \<and> onClick \<lparr>extension = \<lparr>busy = False, installed = True, outdated = False\<rparr>, service = [],
              propagation_stopped = False\<rparr>
   = \<lparr>extension = \<lparr>busy = True, installed = True, outdated = False\<rparr>,
      service = [uninstall \<lparr>busy = True, installed = True, outdated = False\<rparr>],
      propagation_stopped = True\<rparr>
   \<and> onClick \<lparr>extension = \<lparr>busy = False, installed = False, outdated = False\<rparr>, service = [],
              propagation_stopped = False\<rparr>
   = \<lparr>extension = \<lparr>busy = True, installed = False, outdated = False\<rparr>,
      service = [install \<lparr>busy = True, installed = False, outdated = False\<rparr>],
      propagation_stopped = True\<rparr>"
  using onClick_cases [of "\<lparr>extension = \<lparr>busy = True, installed = True, outdated = False\<rparr>,
            service = [], propagation_stopped = False\<rparr>"]
    onClick_cases [of "\<lparr>extension = \<lparr>busy = False, installed = True, outdated = False\<rparr>,
            service = [], propagation_stopped = False\<rparr>"]
    onClick_cases [of "\<lparr>extension = \<lparr>busy = False, installed = False, outdated = False\<rparr>,
            service = [], propagation_stopped = False\<rparr>"]
  by simp

section \<open>The label provider\<close>

lemma insort_key_map:
  "insort_key f (g x) (map g ys) = map g (insort_key (\<lambda>y. f (g y)) x ys)"
  by (induction ys) auto

lemma sort_key_map: "sort_key f (map g xs) = map g (sort_key (\<lambda>y. f (g y)) xs)"
  by (induction xs) (auto simp: insort_key_map)

lemma findContribution_eq:
  "findContribution cs el =
     sort_key (\<lambda>c. - canHandle c el) (filter (\<lambda>c. 0 < canHandle c el) cs)"
  by (simp add: findContribution_def prioritizeAllSync_def filter_map sort_key_map o_def)

lemma set_findContribution:
  "set (findContribution cs el) = {c \<in> set cs. 0 < canHandle c el}"
  by (simp add: findContribution_eq)

lemma sorted_findContribution:
  "sorted_wrt (\<lambda>a b. canHandle b el \<le> canHandle a el) (findContribution cs el)"
proof -
  have "sorted (map (\<lambda>c. - canHandle c el) (findContribution cs el))"
    unfolding findContribution_eq by (rule sorted_sort_key)
  then show ?thesis by (simp add: sorted_map)
qed

lemma first_defined_map_filter:
  "first_defined get fallback xs =
     (case List.map_filter get xs of [] \<Rightarrow> fallback | v # _ \<Rightarrow> v)"
  by (induction xs) (auto simp: List.map_filter_simps split: option.splits)

lemma first_defined_none:
  "\<forall>x\<in>set xs. get x = None \<Longrightarrow> first_defined get fallback xs = fallback"
  by (induction xs) auto

lemma first_defined_highest:
  assumes "sorted_wrt (\<lambda>a b. pr b \<le> pr a) xs"
    and "c \<in> set xs"
    and "get c = Some v"
    and "\<forall>c'\<in>set xs. c' \<noteq> c \<longrightarrow> get c' \<noteq> None \<longrightarrow> pr c' < (pr c :: int)"
  shows "first_defined get fallback xs = v"
  using assms
proof (induction xs)
  case Nil
  then show ?case by simp
next
  case (Cons x xs)
  show ?case
  proof (cases "x = c")
    case True
    with Cons.prems(3) show ?thesis by simp
  next
    case False
    with Cons.prems(2) have c_in: "c \<in> set xs" by simp
    with Cons.prems(1) have "pr c \<le> pr x" by simp
    with Cons.prems(4) False have undefined: "get x = None" by fastforce
    have "first_defined get fallback xs = v"
      using Cons.prems by (intro Cons.IH c_in) auto
    with undefined show ?thesis by simp
  qed
qed

lemma getter_highest:
  assumes "c \<in> set cs" and "0 < canHandle c el" and "get c = Some v"
    and "\<forall>c'\<in>set cs. c' \<noteq> c \<longrightarrow> get c' \<noteq> None \<longrightarrow> canHandle c' el < canHandle c el"
  shows "first_defined get fallback (findContribution cs el) = v"
proof (rule first_defined_highest[where pr = "\<lambda>c. canHandle c el"])
  show "sorted_wrt (\<lambda>a b. canHandle b el \<le> canHandle a el) (findContribution cs el)"
    by (rule sorted_findContribution)
  show "c \<in> set (findContribution cs el)"
    using assms(1,2) by (simp add: set_findContribution)
  show "get c = Some v" by (rule assms(3))
  show "\<forall>c'\<in>set (findContribution cs el).
          c' \<noteq> c \<longrightarrow> get c' \<noteq> None \<longrightarrow> canHandle c' el < canHandle c el"
    using assms(4) by (simp add: set_findContribution)
qed

text \<open>
  C2: for every element, the contributions \<open>getIcon\<close> and \<open>getName\<close> consult are those
  whose \<open>canHandle\<close> is greater than zero, in the order of falling \<open>canHandle\<close>; the
  result is the first defined value in that order, or the getter's fallback. So a
  contribution with a positive \<open>canHandle\<close> and a defined value wins over all contributions
  that have a defined value and a lower \<open>canHandle\<close>.
\<close>

theorem contributions_by_priority:
  "set (findContribution cs el) = {c \<in> set cs. 0 < canHandle c el}
   \<and> sorted_wrt (\<lambda>a b. canHandle b el \<le> canHandle a el) (findContribution cs el)
   \<and> LabelProvider_getIcon cs el =
       (case List.map_filter (\<lambda>c. call_optional (getIcon c) el) (findContribution cs el) of
          [] \<Rightarrow> [] | v # _ \<Rightarrow> v)
   \<and> LabelProvider_getName cs el =
       (case List.map_filter (\<lambda>c. call_optional (getName c) el) (findContribution cs el) of
          [] \<Rightarrow> ''<unknown>'' | v # _ \<Rightarrow> v)
   \<and> (c \<in> set cs \<and> 0 < canHandle c el \<and> call_optional (getIcon c) el = Some icon
       \<and> (\<forall>c'\<in>set cs. c' \<noteq> c \<longrightarrow> call_optional (getIcon c') el \<noteq> None \<longrightarrow>
             canHandle c' el < canHandle c el)
       \<longrightarrow> LabelProvider_getIcon cs el = icon)
   \<and> (c \<in> set cs \<and> 0 < canHandle c el \<and> call_optional (getName c) el = Some name
       \<and> (\<forall>c'\<in>set cs. c' \<noteq> c \<longrightarrow> call_optional (getName c') el \<noteq> None \<longrightarrow>
             canHandle c' el < canHandle c el)
       \<longrightarrow> LabelProvider_getName cs el = name)"
  unfolding LabelProvider_getIcon_def LabelProvider_getName_def
  using getter_highest[of c cs el "\<lambda>c. call_optional (getIcon c) el" icon "[]"]
    getter_highest[of c cs el "\<lambda>c. call_optional (getName c) el" name "''<unknown>''"]
  by (simp only: set_findContribution sorted_findContribution first_defined_map_filter) blast

theorem contributions_by_priority_witness:
  "LabelProvider_getName
     [\<lparr>canHandle = (\<lambda>e. 1), getIcon = None, getName = Some (\<lambda>e. Some ''low''),
       getLongName = None\<rparr>,
      \<lparr>canHandle = (\<lambda>e. 10), getIcon = Some (\<lambda>e. Some ''icon''),
       getName = Some (\<lambda>e. Some ''high''), getLongName = None\<rparr>,
      \<lparr>canHandle = (\<lambda>e. 0), getIcon = Some (\<lambda>e. Some ''never''),
       getName = Some (\<lambda>e. Some ''never''), getLongName = None\<rparr>] () = ''high''
   \<and> LabelProvider_getIcon
     [\<lparr>canHandle = (\<lambda>e. 1), getIcon = None, getName = Some (\<lambda>e. Some ''low''),
       getLongName = None\<rparr>,
      \<lparr>canHandle = (\<lambda>e. 10), getIcon = Some (\<lambda>e. Some ''icon''),
       getName = Some (\<lambda>e. Some ''high''), getLongName = None\<rparr>,
      \<lparr>canHandle = (\<lambda>e. 0), getIcon = Some (\<lambda>e. Some ''never''),
       getName = Some (\<lambda>e. Some ''never''), getLongName = None\<rparr>] () = ''icon''"
proof -
  let ?low = "\<lparr>canHandle = (\<lambda>e::unit. 1), getIcon = None, getName = Some (\<lambda>e. Some ''low''),
       getLongName = None\<rparr>"
  let ?high = "\<lparr>canHandle = (\<lambda>e::unit. 10), getIcon = Some (\<lambda>e. Some ''icon''),
       getName = Some (\<lambda>e. Some ''high''), getLongName = None\<rparr>"
  let ?zero = "\<lparr>canHandle = (\<lambda>e::unit. 0), getIcon = Some (\<lambda>e. Some ''never''),
       getName = Some (\<lambda>e. Some ''never''), getLongName = None\<rparr>"
  let ?cs = "[?low, ?high, ?zero]"
  have icon: "?high \<in> set ?cs \<and> 0 < canHandle ?high () \<and> call_optional (getIcon ?high) () = Some ''icon''
       \<and> (\<forall>c'\<in>set ?cs. c' \<noteq> ?high \<longrightarrow> call_optional (getIcon c') () \<noteq> None \<longrightarrow>
             canHandle c' () < canHandle ?high ())"
    by (simp add: call_optional_def)
  have name: "?high \<in> set ?cs \<and> 0 < canHandle ?high () \<and> call_optional (getName ?high) () = Some ''high''
       \<and> (\<forall>c'\<in>set ?cs. c' \<noteq> ?high \<longrightarrow> call_optional (getName c') () \<noteq> None \<longrightarrow>
             canHandle c' () < canHandle ?high ())"
    by (simp add: call_optional_def)
  from contributions_by_priority [of ?cs "()" ?high "''icon''" "''high''"] icon name
  show ?thesis by blast
qed

text \<open>
  C8: \<open>getName\<close> returns \<open><unknown>\<close> for every element for which no contribution with a
  positive \<open>canHandle\<close> has a defined name; under the same condition on icons and long
  names, \<open>getIcon\<close> and \<open>getLongName\<close> return the empty string.
\<close>

theorem getters_fall_back:
  "((\<forall>c\<in>set cs. 0 < canHandle c el \<longrightarrow> call_optional (getName c) el = None) \<longrightarrow>
      LabelProvider_getName cs el = ''<unknown>'')
   \<and> ((\<forall>c\<in>set cs. 0 < canHandle c el \<longrightarrow> call_optional (getIcon c) el = None) \<longrightarrow>
      LabelProvider_getIcon cs el = [])
   \<and> ((\<forall>c\<in>set cs. 0 < canHandle c el \<longrightarrow> call_optional (getLongName c) el = None) \<longrightarrow>
      LabelProvider_getLongName cs el = [])"
  by (simp add: LabelProvider_getName_def LabelProvider_getIcon_def LabelProvider_getLongName_def
      first_defined_none set_findContribution)

theorem getters_fall_back_witness:
  "LabelProvider_getName
     [\<lparr>canHandle = (\<lambda>e. 0), getIcon = Some (\<lambda>e. Some ''i''), getName = Some (\<lambda>e. Some ''n''),
       getLongName = Some (\<lambda>e. Some ''l'')\<rparr>,
      \<lparr>canHandle = (\<lambda>e. 5), getIcon = None, getName = Some (\<lambda>e. None),
       getLongName = None\<rparr>] () = ''<unknown>''
   \<and> LabelProvider_getIcon
     [\<lparr>canHandle = (\<lambda>e. 0), getIcon = Some (\<lambda>e. Some ''i''), getName = Some (\<lambda>e. Some ''n''),
       getLongName = Some (\<lambda>e. Some ''l'')\<rparr>,
      \<lparr>canHandle = (\<lambda>e. 5), getIcon = None, getName = Some (\<lambda>e. None),
       getLongName = None\<rparr>] () = []
   \<and> LabelProvider_getLongName
     [\<lparr>canHandle = (\<lambda>e. 0), getIcon = Some (\<lambda>e. Some ''i''), getName = Some (\<lambda>e. Some ''n''),
       getLongName = Some (\<lambda>e. Some ''l'')\<rparr>,
      \<lparr>canHandle = (\<lambda>e. 5), getIcon = None, getName = Some (\<lambda>e. None),
       getLongName = None\<rparr>] () = []"
  using getters_fall_back
    [of "[\<lparr>canHandle = (\<lambda>e. 0), getIcon = Some (\<lambda>e. Some ''i''), getName = Some (\<lambda>e. Some ''n''),
       getLongName = Some (\<lambda>e. Some ''l'')\<rparr>,
      \<lparr>canHandle = (\<lambda>e. 5), getIcon = None, getName = Some (\<lambda>e. None),
       getLongName = None\<rparr>]" "()"]
  by (simp add: call_optional_def)

end
